theory Spec2Isabelle
  imports Complex_Main
begin

section \<open>Planet simulation: the physics core of planet.py\<close>

text \<open>
  The embedding covers the class \<open>Planet\<close> (constructor, \<open>attraction\<close>,
  \<open>update_position\<close>) and the per-frame loop of \<open>main\<close> that advances every planet.
  Drawing, fonts, colours on screen and event polling only read the state and are left out.

  Numbers: Python's \<open>float\<close> (and the \<open>int\<close> literals the driver passes) are
  idealised as \<^typ>\<open>real\<close>. Rounding, overflow, signed zeros, \<open>inf\<close> and \<open>NaN\<close> are
  therefore outside the model. What Python raises on a division by zero is written
  out as a branch, since HOL's \<open>x / 0\<close> is \<open>0\<close>.
  Exact equalities between the results of different floating-point computations are
  not stated here: the two force pairs that \<open>attraction\<close> returns for a pair of bodies
  are negations of each other in real arithmetic, but not on doubles, where
  \<open>math.sin(math.atan2(0, -1))\<close> is not \<open>0\<close>.

  Objects: a planet is a mutable object and \<open>self == planet\<close> compares identities
  (the class defines no \<open>__eq__\<close>), so the model keeps an explicit store from
  references to objects; the list \<open>planets\<close> is a list of references.
\<close>

subsection \<open>Data\<close>

datatype error = ZeroDivisionError

type_synonym color = "nat \<times> nat \<times> nat"

text \<open>
  The attributes set by \<open>__init__\<close>. The coordinates \<open>x\<close> and \<open>y\<close> are named
  \<open>x_coord\<close> and \<open>y_coord\<close>; the two-element list \<open>velocity\<close> is a pair.
\<close>

record planet =
  x_coord :: real
  y_coord :: real
  radius :: int
  color :: color
  mass :: real
  velocity :: "real \<times> real"
  orbit :: "(real \<times> real) list"
  sun :: bool
  distance_to_sun :: real

type_synonym ref = nat

type_synonym heap = "ref \<Rightarrow> planet"

text \<open>The position of a planet, as the pair that \<open>update_position\<close> appends to \<open>orbit\<close>.\<close>

abbreviation position :: "planet \<Rightarrow> real \<times> real" where
  "position p \<equiv> (x_coord p, y_coord p)"

subsection \<open>Constants of the class\<close>

definition AU :: real where
  "AU = 149.6 * 10 ^ 6 * 1000"

definition G :: real where
  "G = 6.67430 / 10 ^ 11"

definition TIMESTEP :: real where
  "TIMESTEP = 3600 * 24"

subsection \<open>The constructor\<close>

text \<open>
  \<open>__init__\<close> stores its arguments and initialises the remaining attributes. It has
  no \<open>raise\<close> and performs no arithmetic, so every call returns normally: the result
  is always \<open>Inr\<close>.
\<close>

definition Planet_init :: "real \<Rightarrow> real \<Rightarrow> int \<Rightarrow> color \<Rightarrow> real \<Rightarrow> error + planet" where
  "Planet_init x y r c m =
     Inr \<lparr> x_coord = x, y_coord = y, radius = r, color = c, mass = m,
           velocity = (0, 0), orbit = [], sun = False, distance_to_sun = 0 \<rparr>"

subsection \<open>The library function atan2\<close>

text \<open>
  \<open>math.atan2(y, x)\<close> on real arguments: the angle in \<open>(-pi, pi]\<close> of the point
  \<open>(x, y)\<close>, and \<open>0\<close> at the origin.
\<close>

definition atan2 :: "real \<Rightarrow> real \<Rightarrow> real" where
  "atan2 y x =
     (if 0 < x then arctan (y / x)
      else if x < 0 then (if 0 \<le> y then arctan (y / x) + pi else arctan (y / x) - pi)
      else if 0 < y then pi / 2
      else if y < 0 then - (pi / 2)
      else 0)"

subsection \<open>attraction\<close>

text \<open>
  \<open>self.attraction(other)\<close>. The write to \<open>self.distance_to_sun\<close> happens before the
  division, so the store is returned in both outcomes: with the force pair, or with the
  \<open>ZeroDivisionError\<close> that \<open>/\<close> raises when \<open>distance ** 2\<close> is zero.
\<close>

definition attraction :: "heap \<Rightarrow> ref \<Rightarrow> ref \<Rightarrow> heap \<times> (error + real \<times> real)" where
  "attraction h self other =
     (let dx = x_coord (h other) - x_coord (h self);
          dy = y_coord (h other) - y_coord (h self);
          distance = sqrt (dx ^ 2 + dy ^ 2);
          h' = (if sun (h other)
                then h(self := (h self)\<lparr>distance_to_sun := distance\<rparr>)
                else h)
      in if distance ^ 2 = 0 then (h', Inl ZeroDivisionError)
         else
           (let force = (G * mass (h' self) * mass (h' other)) / (distance ^ 2);
                angle = atan2 dy dx;
                force_x = force * cos angle;
                force_y = force * sin angle
            in (h', Inr (force_x, force_y))))"

subsection \<open>update_position\<close>

text \<open>
  The \<open>for\<close> loop of \<open>update_position\<close>: it skips \<open>self\<close>, calls \<open>attraction\<close> on
  every other entry in list order and accumulates the two totals. An exception leaves
  the loop at once; nothing in the program catches it, so the store is not returned
  with an error.
\<close>

fun sum_forces :: "heap \<Rightarrow> ref \<Rightarrow> ref list \<Rightarrow> real \<times> real \<Rightarrow> error + (heap \<times> real \<times> real)" where
  "sum_forces h self [] (total_fx, total_fy) = Inr (h, total_fx, total_fy)"
| "sum_forces h self (p # ps) (total_fx, total_fy) =
     (if self = p then sum_forces h self ps (total_fx, total_fy)
      else
        (case attraction h self p of
           (h', Inl e) \<Rightarrow> Inl e
         | (h', Inr (fx, fy)) \<Rightarrow> sum_forces h' self ps (total_fx + fx, total_fy + fy)))"

text \<open>
  The whole method. \<open>total_fx / self.mass\<close> raises \<open>ZeroDivisionError\<close> for a zero
  mass (also when the total is zero). The position is advanced with the velocity that
  was just updated, and the new position is appended to \<open>orbit\<close>.
\<close>

definition update_position :: "heap \<Rightarrow> ref \<Rightarrow> ref list \<Rightarrow> error + heap" where
  "update_position h self planets =
     (case sum_forces h self planets (0, 0) of
        Inl e \<Rightarrow> Inl e
      | Inr (h1, total_fx, total_fy) \<Rightarrow>
          if mass (h1 self) = 0 then Inl ZeroDivisionError
          else
            (let acceleration_x = total_fx / mass (h1 self);
                 acceleration_y = total_fy / mass (h1 self);
                 vx = fst (velocity (h1 self)) + acceleration_x * TIMESTEP;
                 vy = snd (velocity (h1 self)) + acceleration_y * TIMESTEP;
                 x' = x_coord (h1 self) + vx * TIMESTEP;
                 y' = y_coord (h1 self) + vy * TIMESTEP
             in Inr (h1(self := (h1 self)\<lparr> x_coord := x', y_coord := y',
                                            velocity := (vx, vy),
                                            orbit := orbit (h1 self) @ [(x', y')] \<rparr>))))"

subsection \<open>The simulation loop\<close>

text \<open>
  One frame of \<open>main\<close>: \<open>for planet in planets: planet.update_position(planets)\<close>
  (the call of \<open>draw\<close> in the same loop only reads). Each planet is advanced in turn,
  in the store its predecessors left behind. The specification calls this \<open>step\<close>.
\<close>

fun update_all :: "heap \<Rightarrow> ref list \<Rightarrow> ref list \<Rightarrow> error + heap" where
  "update_all h [] planets = Inr h"
| "update_all h (p # ps) planets =
     (case update_position h p planets of
        Inl e \<Rightarrow> Inl e
      | Inr h' \<Rightarrow> update_all h' ps planets)"

definition step :: "heap \<Rightarrow> ref list \<Rightarrow> error + heap" where
  "step h planets = update_all h planets planets"

text \<open>\<open>k\<close> iterations of the \<open>while\<close> loop; an exception ends the program.\<close>

fun run :: "nat \<Rightarrow> heap \<Rightarrow> ref list \<Rightarrow> error + heap" where
  "run 0 h planets = Inr h"
| "run (Suc k) h planets =
     (case step h planets of
        Inl e \<Rightarrow> Inl e
      | Inr h' \<Rightarrow> run k h' planets)"

subsection \<open>Descriptions the theorems compare the code with\<close>

text \<open>
  The pair that \<open>attraction\<close> returns when it returns: its arithmetic without the write
  to \<open>distance_to_sun\<close> and without the raise.
\<close>

definition pair_force :: "planet \<Rightarrow> planet \<Rightarrow> real \<times> real" where
  "pair_force a b =
     (let dx = x_coord b - x_coord a;
          dy = y_coord b - y_coord a;
          distance = sqrt (dx ^ 2 + dy ^ 2);
          force = (G * mass a * mass b) / (distance ^ 2);
          angle = atan2 dy dx
      in (force * cos angle, force * sin angle))"

text \<open>
  The net force on \<open>self\<close> in the store \<open>h\<close>: the pairs of all entries of
  \<open>planets\<close> other than \<open>self\<close>, added up in list order from \<open>(0, 0)\<close>.
\<close>

definition net_force :: "heap \<Rightarrow> ref \<Rightarrow> ref list \<Rightarrow> real \<times> real" where
  "net_force h self planets =
     foldl (\<lambda>(total_fx, total_fy) p.
              (total_fx + fst (pair_force (h self) (h p)),
               total_fy + snd (pair_force (h self) (h p))))
       (0, 0) (filter (\<lambda>p. p \<noteq> self) planets)"

text \<open>
  The two-pass scheme of the specification, written from its words: a first pass
  computes the force total of every body from the positions before the tick, a second
  pass applies the velocity and position updates. The program has no such function.
\<close>

fun two_pass_forces :: "heap \<Rightarrow> ref list \<Rightarrow> ref list \<Rightarrow> error + (heap \<times> (real \<times> real) list)" where
  "two_pass_forces h [] planets = Inr (h, [])"
| "two_pass_forces h (b # bs) planets =
     (case sum_forces h b planets (0, 0) of
        Inl e \<Rightarrow> Inl e
      | Inr (h1, force_total) \<Rightarrow>
          (case two_pass_forces h1 bs planets of
             Inl e \<Rightarrow> Inl e
           | Inr (h2, totals) \<Rightarrow> Inr (h2, force_total # totals)))"

fun two_pass_apply :: "heap \<Rightarrow> ref list \<Rightarrow> (real \<times> real) list \<Rightarrow> error + heap" where
  "two_pass_apply h (b # bs) ((total_fx, total_fy) # totals) =
     (if mass (h b) = 0 then Inl ZeroDivisionError
      else
        (let vx = fst (velocity (h b)) + total_fx / mass (h b) * TIMESTEP;
             vy = snd (velocity (h b)) + total_fy / mass (h b) * TIMESTEP;
             x' = x_coord (h b) + vx * TIMESTEP;
             y' = y_coord (h b) + vy * TIMESTEP
         in two_pass_apply
              (h(b := (h b)\<lparr> x_coord := x', y_coord := y', velocity := (vx, vy),
                               orbit := orbit (h b) @ [(x', y')] \<rparr>)) bs totals))"
| "two_pass_apply h bs totals = Inr h"

definition two_pass_step :: "heap \<Rightarrow> ref list \<Rightarrow> error + heap" where
  "two_pass_step h planets =
     (case two_pass_forces h planets planets of
        Inl e \<Rightarrow> Inl e
      | Inr (h1, totals) \<Rightarrow> two_pass_apply h1 planets totals)"

subsection \<open>Example systems\<close>

text \<open>
  A primary of unit mass at the origin and a companion of unit mass at \<open>(1, 0)\<close>,
  both at rest, at references \<open>0\<close> and \<open>1\<close>. Every other reference holds a further
  object with the attributes of the primary, hence at the primary's position.
\<close>

definition primary :: planet where
  "primary = \<lparr> x_coord = 0, y_coord = 0, radius = 30, color = (255, 255, 0), mass = 1,
               velocity = (0, 0), orbit = [], sun = True, distance_to_sun = 0 \<rparr>"

definition companion :: planet where
  "companion = \<lparr> x_coord = 1, y_coord = 0, radius = 16, color = (100, 149, 237), mass = 1,
                 velocity = (0, 0), orbit = [], sun = False, distance_to_sun = 0 \<rparr>"

definition two_bodies :: heap where
  "two_bodies = (\<lambda>r. primary)(1 := companion)"

text \<open>A lone primary that moves: unit mass at the origin with velocity \<open>(1, 0)\<close>.\<close>

definition drifting :: planet where
  "drifting = \<lparr> x_coord = 0, y_coord = 0, radius = 30, color = (255, 255, 0), mass = 1,
                velocity = (1, 0), orbit = [], sun = True, distance_to_sun = 0 \<rparr>"

definition lone_body :: heap where
  "lone_body = (\<lambda>r. drifting)"

text \<open>The same body one day later.\<close>

definition drifted :: planet where
  "drifted = drifting\<lparr> x_coord := 86400, orbit := [(86400, 0)] \<rparr>"

section \<open>Properties\<close>

subsection \<open>The angle of a vector\<close>

lemma sqrt_ratio_pos:
  fixes x y :: real
  assumes "0 < x"
  shows "sqrt (1 + (y / x)\<^sup>2) = sqrt (x\<^sup>2 + y\<^sup>2) / x"
proof -
  have "1 + (y / x)\<^sup>2 = (x\<^sup>2 + y\<^sup>2) / x\<^sup>2"
    using assms by (simp add: field_simps)
  then show ?thesis
    using assms by (simp add: real_sqrt_divide)
qed

lemma sqrt_ratio_neg:
  fixes x y :: real
  assumes "x < 0"
  shows "sqrt (1 + (y / x)\<^sup>2) = sqrt (x\<^sup>2 + y\<^sup>2) / (- x)"
proof -
  have "1 + (y / x)\<^sup>2 = (x\<^sup>2 + y\<^sup>2) / x\<^sup>2"
    using assms by (simp add: field_simps)
  then show ?thesis
    using assms by (simp add: real_sqrt_divide)
qed

lemma cos_atan2:
  assumes "x \<noteq> 0 \<or> y \<noteq> 0"
  shows "cos (atan2 y x) = x / sqrt (x\<^sup>2 + y\<^sup>2)"
proof -
  consider "0 < x" | "x < 0" | "x = 0" "y \<noteq> 0" using assms by fastforce
  then show ?thesis
  proof cases
    case 1
    then show ?thesis
      by (simp add: atan2_def cos_arctan sqrt_ratio_pos)
  next
    case 2
    then show ?thesis
      by (simp add: atan2_def cos_arctan sqrt_ratio_neg)
  next
    case 3
    then show ?thesis
      by (simp add: atan2_def)
  qed
qed

lemma sin_atan2:
  assumes "x \<noteq> 0 \<or> y \<noteq> 0"
  shows "sin (atan2 y x) = y / sqrt (x\<^sup>2 + y\<^sup>2)"
proof -
  consider "0 < x" | "x < 0" | "x = 0" "0 < y" | "x = 0" "y < 0" using assms by fastforce
  then show ?thesis
  proof cases
    case 1
    then show ?thesis
      by (simp add: atan2_def sin_arctan sqrt_ratio_pos)
  next
    case 2
    then show ?thesis
      by (simp add: atan2_def sin_arctan sqrt_ratio_neg)
  next
    case 3
    then show ?thesis
      by (simp add: atan2_def)
  next
    case 4
    then show ?thesis
      by (simp add: atan2_def)
  qed
qed

subsection \<open>What attraction returns and writes\<close>

lemma sum_squares_zero_iff:
  fixes a b c d :: real
  shows "(b - a)\<^sup>2 + (d - c)\<^sup>2 = 0 \<longleftrightarrow> b = a \<and> d = c"
  by (simp add: sum_power2_eq_zero_iff)

lemma attraction_store:
  "fst (attraction h self other) =
     (if sun (h other)
      then h(self := (h self)\<lparr>distance_to_sun :=
             sqrt ((x_coord (h other) - x_coord (h self))\<^sup>2 + (y_coord (h other) - y_coord (h self))\<^sup>2)\<rparr>)
      else h)"
  by (simp add: attraction_def Let_def)

lemma attraction_raises:
  assumes "x_coord (h other) = x_coord (h self)" and "y_coord (h other) = y_coord (h self)"
  shows "snd (attraction h self other) = Inl ZeroDivisionError"
  using assms by (simp add: attraction_def Let_def)

lemma attraction_returns:
  assumes "x_coord (h other) \<noteq> x_coord (h self) \<or> y_coord (h other) \<noteq> y_coord (h self)"
  shows "snd (attraction h self other) = Inr (pair_force (h self) (h other))"
proof -
  have "(x_coord (h other) - x_coord (h self))\<^sup>2 + (y_coord (h other) - y_coord (h self))\<^sup>2 \<noteq> 0"
    using assms by (simp add: sum_squares_zero_iff)
  then show ?thesis
    by (simp add: attraction_def pair_force_def Let_def)
qed

subsection \<open>What the force loop and update_position write\<close>

lemma pair_force_distance_to_sun [simp]:
  "pair_force (a\<lparr>distance_to_sun := d\<rparr>) b = pair_force a b"
  "pair_force a (b\<lparr>distance_to_sun := d\<rparr>) = pair_force a b"
  by (simp_all add: pair_force_def)

lemma attraction_store_shape:
  "\<exists>d. fst (attraction h self other) = h(self := (h self)\<lparr>distance_to_sun := d\<rparr>)"
proof (cases "sun (h other)")
  case True
  then show ?thesis by (auto simp: attraction_store)
next
  case False
  then have "fst (attraction h self other) = h(self := (h self)\<lparr>distance_to_sun := distance_to_sun (h self)\<rparr>)"
    by (simp add: attraction_store)
  then show ?thesis by blast
qed

lemma sum_forces_store_shape:
  "sum_forces h self ps (tx, ty) = Inr (h', t) \<Longrightarrow>
     \<exists>d. h' = h(self := (h self)\<lparr>distance_to_sun := d\<rparr>)"
proof (induction ps arbitrary: h tx ty)
  case Nil
  then have "h' = h(self := (h self)\<lparr>distance_to_sun := distance_to_sun (h self)\<rparr>)"
    by simp
  then show ?case by blast
next
  case (Cons p ps)
  show ?case
  proof (cases "self = p")
    case True
    with Cons show ?thesis by simp
  next
    case False
    obtain h1 r where a: "attraction h self p = (h1, r)"
      by (cases "attraction h self p")
    with Cons.prems False obtain fx fy where r: "r = Inr (fx, fy)"
      and rest: "sum_forces h1 self ps (tx + fx, ty + fy) = Inr (h', t)"
      by (auto split: sum.splits prod.splits)
    from attraction_store_shape [of h self p] a obtain d1
      where h1: "h1 = h(self := (h self)\<lparr>distance_to_sun := d1\<rparr>)"
      by auto
    from Cons.IH [OF rest] obtain d where "h' = h1(self := (h1 self)\<lparr>distance_to_sun := d\<rparr>)"
      by blast
    then have "h' = h(self := (h self)\<lparr>distance_to_sun := d\<rparr>)"
      by (simp add: h1)
    then show ?thesis by blast
  qed
qed

lemma update_position_shape:
  assumes "update_position h self planets = Inr h'"
  shows "\<exists>x' y' v' d.
           h' = h(self := (h self)\<lparr>distance_to_sun := d,
                                    x_coord := x', y_coord := y', velocity := v',
                                    orbit := orbit (h self) @ [(x', y')]\<rparr>)"
proof -
  from assms obtain h1 tx ty where s: "sum_forces h self planets (0, 0) = Inr (h1, tx, ty)"
    by (auto simp: update_position_def split: sum.splits)
  from sum_forces_store_shape [OF s] obtain d
    where h1: "h1 = h(self := (h self)\<lparr>distance_to_sun := d\<rparr>)"
    by blast
  define vx where "vx = fst (velocity (h self)) + tx / mass (h self) * TIMESTEP"
  define vy where "vy = snd (velocity (h self)) + ty / mass (h self) * TIMESTEP"
  define x' where "x' = x_coord (h self) + vx * TIMESTEP"
  define y' where "y' = y_coord (h self) + vy * TIMESTEP"
  from assms s have "h' = h1(self := (h1 self)\<lparr>x_coord := x', y_coord := y',
        velocity := (vx, vy), orbit := orbit (h1 self) @ [(x', y')]\<rparr>)"
    by (simp add: update_position_def Let_def h1 vx_def vy_def x'_def y'_def split: if_splits)
  then have "h' = h(self := (h self)\<lparr>distance_to_sun := d, x_coord := x', y_coord := y',
        velocity := (vx, vy), orbit := orbit (h self) @ [(x', y')]\<rparr>)"
    by (simp add: h1)
  then show ?thesis by blast
qed

lemma update_position_other:
  "update_position h self planets = Inr h' \<Longrightarrow> r \<noteq> self \<Longrightarrow> h' r = h r"
  by (drule update_position_shape) auto

lemma update_position_mass:
  "update_position h self planets = Inr h' \<Longrightarrow> mass (h' r) = mass (h r)"
  by (drule update_position_shape) (cases "r = self", auto)

lemma update_position_sun:
  "update_position h self planets = Inr h' \<Longrightarrow> sun (h' r) = sun (h r)"
  by (drule update_position_shape) (cases "r = self", auto)

lemma update_position_orbit:
  "update_position h self planets = Inr h' \<Longrightarrow>
     orbit (h' self) = orbit (h self) @ [(x_coord (h' self), y_coord (h' self))]"
  by (drule update_position_shape) auto

subsection \<open>The example systems\<close>

lemma two_bodies_at:
  "two_bodies 0 = primary"
  "two_bodies (Suc 0) = companion"
  by (simp_all add: two_bodies_def)

section \<open>The claims\<close>

text \<open>
  C1. For two bodies at distinct positions, \<open>attraction\<close> returns the pair
  \<open>(F * cos (atan2 dy dx), F * sin (atan2 dy dx))\<close> with
  \<open>F = G * m_self * m_other / d^2\<close>, \<open>dx = other.x - self.x\<close>,
  \<open>dy = other.y - self.y\<close> and \<open>d = sqrt (dx^2 + dy^2)\<close>. That pair is \<open>F\<close> times
  the unit vector from \<open>self\<close> to \<open>other\<close>, and its length is \<open>|F|\<close>.
\<close>

theorem attraction_newton:
  assumes "position (h other) \<noteq> position (h self)"
  shows "let dx = x_coord (h other) - x_coord (h self);
             dy = y_coord (h other) - y_coord (h self);
             d = sqrt (dx\<^sup>2 + dy\<^sup>2);
             F = G * mass (h self) * mass (h other) / d\<^sup>2;
             forceX = F * cos (atan2 dy dx);
             forceY = F * sin (atan2 dy dx)
         in snd (attraction h self other) = Inr (forceX, forceY)
            \<and> forceX = F * (dx / d) \<and> forceY = F * (dy / d)
            \<and> sqrt (forceX\<^sup>2 + forceY\<^sup>2) = \<bar>F\<bar>"
proof -
  define dx where "dx = x_coord (h other) - x_coord (h self)"
  define dy where "dy = y_coord (h other) - y_coord (h self)"
  define d where "d = sqrt (dx\<^sup>2 + dy\<^sup>2)"
  define F where "F = G * mass (h self) * mass (h other) / d\<^sup>2"
  have nz: "dx \<noteq> 0 \<or> dy \<noteq> 0"
    using assms by (auto simp: dx_def dy_def)
  then have sq: "dx\<^sup>2 + dy\<^sup>2 \<noteq> 0"
    by (simp add: sum_power2_eq_zero_iff)
  have dpos: "0 < d"
    unfolding d_def using sq by (simp add: sum_power2_gt_zero_iff nz)
  have d2: "d\<^sup>2 = dx\<^sup>2 + dy\<^sup>2"
    by (simp add: d_def)
  have c: "cos (atan2 dy dx) = dx / d" and s: "sin (atan2 dy dx) = dy / d"
    using nz by (simp_all add: cos_atan2 sin_atan2 d_def)
  have ret: "snd (attraction h self other) = Inr (F * cos (atan2 dy dx), F * sin (atan2 dy dx))"
    using attraction_returns [of h other self] assms
    by (simp add: pair_force_def Let_def dx_def dy_def d_def F_def)
  have "(F * (dx / d))\<^sup>2 + (F * (dy / d))\<^sup>2 = F\<^sup>2 * ((dx\<^sup>2 + dy\<^sup>2) / d\<^sup>2)"
    by (simp add: power_mult_distrib power_divide algebra_simps add_divide_distrib)
  also have "\<dots> = F\<^sup>2"
    using dpos by (simp add: d2 [symmetric])
  finally have mag: "sqrt ((F * (dx / d))\<^sup>2 + (F * (dy / d))\<^sup>2) = \<bar>F\<bar>"
    by simp
  show ?thesis
    using ret c s mag
    unfolding Let_def dx_def [symmetric] dy_def [symmetric] d_def [symmetric] F_def [symmetric]
    by simp
qed

theorem attraction_newton_witness:
  "position (two_bodies 0) \<noteq> position (two_bodies 1)
   \<and> snd (attraction two_bodies 1 0) = Inr (- G, 0)"
proof -
  have distinct_positions: "position (two_bodies 0) \<noteq> position (two_bodies 1)"
    by (simp add: two_bodies_at primary_def companion_def)
  show ?thesis
    using distinct_positions attraction_newton [OF distinct_positions]
    by (simp add: Let_def two_bodies_at primary_def companion_def atan2_def)
qed

text \<open>
  C5. \<open>self.attraction(other)\<close> writes nothing but \<open>self.distance_to_sun\<close>: the field
  becomes the Euclidean distance of the two positions when \<open>other.sun\<close> holds and keeps
  its value otherwise; every other field of \<open>self\<close> and every other object, \<open>other\<close>
  included, is unchanged, and without the flag the store is unchanged. This holds
  whether the call returns or raises.
\<close>

theorem attraction_frame:
  "let d = sqrt ((x_coord (h other) - x_coord (h self))\<^sup>2 + (y_coord (h other) - y_coord (h self))\<^sup>2);
       h' = fst (attraction h self other)
   in distance_to_sun (h' self) = (if sun (h other) then d else distance_to_sun (h self))
      \<and> h' self = (h self)\<lparr>distance_to_sun := distance_to_sun (h' self)\<rparr>
      \<and> (\<forall>r. r \<noteq> self \<longrightarrow> h' r = h r)
      \<and> (\<not> sun (h other) \<longrightarrow> h' = h)"
  by (simp add: attraction_store Let_def)

theorem attraction_frame_witness:
  "sun (two_bodies 0)
   \<and> distance_to_sun (fst (attraction two_bodies 1 0) 1) = 1
   \<and> fst (attraction two_bodies 1 0) 0 = two_bodies 0
   \<and> \<not> sun (two_bodies 1)
   \<and> fst (attraction two_bodies 0 1) = two_bodies"
  using attraction_frame [of two_bodies 0 1] attraction_frame [of two_bodies 1 0]
  by (simp add: Let_def two_bodies_at primary_def companion_def)

text \<open>
  C6. With \<open>d\<close> the distance of the two positions: \<open>d = 0\<close> exactly when the positions
  coincide, and then \<open>attraction\<close> raises \<open>ZeroDivisionError\<close> to its caller; when
  \<open>d > 0\<close> it raises nothing and returns a force pair.
\<close>

theorem attraction_zero_distance:
  "let d = sqrt ((x_coord (h other) - x_coord (h self))\<^sup>2 + (y_coord (h other) - y_coord (h self))\<^sup>2)
   in (d = 0 \<longleftrightarrow> position (h other) = position (h self))
      \<and> (d = 0 \<longrightarrow> snd (attraction h self other) = Inl ZeroDivisionError)
      \<and> (0 < d \<longrightarrow> (\<exists>force_x force_y. snd (attraction h self other) = Inr (force_x, force_y)))"
proof -
  define d where
    "d = sqrt ((x_coord (h other) - x_coord (h self))\<^sup>2 + (y_coord (h other) - y_coord (h self))\<^sup>2)"
  have zero: "d = 0 \<longleftrightarrow> position (h other) = position (h self)"
    by (simp add: d_def sum_squares_zero_iff)
  have raises: "snd (attraction h self other) = Inl ZeroDivisionError" if "d = 0"
    using that zero by (simp add: attraction_raises)
  have returns: "\<exists>force_x force_y. snd (attraction h self other) = Inr (force_x, force_y)"
    if "0 < d"
  proof -
    from that zero
    have "x_coord (h other) \<noteq> x_coord (h self) \<or> y_coord (h other) \<noteq> y_coord (h self)"
      by auto
    then have "snd (attraction h self other) = Inr (pair_force (h self) (h other))"
      by (rule attraction_returns)
    then show ?thesis
      by (cases "pair_force (h self) (h other)") simp
  qed
  show ?thesis
    using zero raises returns unfolding Let_def d_def by blast
qed

theorem attraction_zero_distance_witness:
  "position (two_bodies 2) = position (two_bodies 0)
   \<and> snd (attraction two_bodies 0 2) = Inl ZeroDivisionError
   \<and> position (two_bodies 1) \<noteq> position (two_bodies 0)
   \<and> snd (attraction two_bodies 0 1) = Inr (G, 0)"
proof -
  have at2: "two_bodies 2 = primary"
    by (simp add: two_bodies_def)
  have "snd (attraction two_bodies 0 1) = Inr (G, 0)"
    by (simp add: attraction_def Let_def two_bodies_at primary_def companion_def atan2_def)
  then show ?thesis
    using attraction_zero_distance [of two_bodies 2 0] attraction_zero_distance [of two_bodies 1 0]
    by (simp add: Let_def two_bodies_at at2 primary_def companion_def)
qed

subsection \<open>The force loop returns the net force\<close>

lemma sum_forces_returns:
  assumes "\<forall>p\<in>set ps. p \<noteq> self \<longrightarrow> position (h p) \<noteq> position (h self)"
  shows "\<exists>d. sum_forces h self ps (tx, ty) =
           Inr (h(self := (h self)\<lparr>distance_to_sun := d\<rparr>),
                foldl (\<lambda>(total_fx, total_fy) p.
                         (total_fx + fst (pair_force (h self) (h p)),
                          total_fy + snd (pair_force (h self) (h p))))
                  (tx, ty) (filter (\<lambda>p. p \<noteq> self) ps))"
  using assms
proof (induction ps arbitrary: h tx ty)
  case Nil
  show ?case
    by (rule exI [of _ "distance_to_sun (h self)"]) simp
next
  case (Cons p ps)
  show ?case
  proof (cases "self = p")
    case True
    with Cons.IH [of h tx ty] Cons.prems show ?thesis
      by simp
  next
    case False
    obtain fx fy where f: "pair_force (h self) (h p) = (fx, fy)"
      by (cases "pair_force (h self) (h p)")
    obtain d1 where h1: "fst (attraction h self p) = h(self := (h self)\<lparr>distance_to_sun := d1\<rparr>)"
      using attraction_store_shape by blast
    let ?h1 = "h(self := (h self)\<lparr>distance_to_sun := d1\<rparr>)"
    have "x_coord (h p) \<noteq> x_coord (h self) \<or> y_coord (h p) \<noteq> y_coord (h self)"
      using Cons.prems False by auto
    then have "snd (attraction h self p) = Inr (fx, fy)"
      unfolding f [symmetric] by (rule attraction_returns)
    with h1 have a: "attraction h self p = (?h1, Inr (fx, fy))"
      by (simp add: prod_eq_iff)
    have pre: "\<forall>q\<in>set ps. q \<noteq> self \<longrightarrow> position (?h1 q) \<noteq> position (?h1 self)"
      using Cons.prems by simp
    from Cons.IH [OF pre, of "tx + fx" "ty + fy"] obtain d where
      rest: "sum_forces ?h1 self ps (tx + fx, ty + fy) =
         Inr (?h1(self := (?h1 self)\<lparr>distance_to_sun := d\<rparr>),
              foldl (\<lambda>(total_fx, total_fy) q.
                       (total_fx + fst (pair_force (?h1 self) (?h1 q)),
                        total_fy + snd (pair_force (?h1 self) (?h1 q))))
                (tx + fx, ty + fy) (filter (\<lambda>q. q \<noteq> self) ps))"
      by blast
    have same: "foldl (\<lambda>(total_fx, total_fy) q.
                       (total_fx + fst (pair_force (?h1 self) (?h1 q)),
                        total_fy + snd (pair_force (?h1 self) (?h1 q))))
                (tx + fx, ty + fy) (filter (\<lambda>q. q \<noteq> self) ps)
       = foldl (\<lambda>(total_fx, total_fy) q.
                       (total_fx + fst (pair_force (h self) (h q)),
                        total_fy + snd (pair_force (h self) (h q))))
                (tx + fx, ty + fy) (filter (\<lambda>q. q \<noteq> self) ps)"
      by (rule foldl_cong) auto
    have "sum_forces h self (p # ps) (tx, ty) =
         Inr (h(self := (h self)\<lparr>distance_to_sun := d\<rparr>),
              foldl (\<lambda>(total_fx, total_fy) q.
                       (total_fx + fst (pair_force (h self) (h q)),
                        total_fy + snd (pair_force (h self) (h q))))
                (tx, ty) (filter (\<lambda>q. q \<noteq> self) (p # ps)))"
      using False a rest unfolding same by (simp add: f)
    then show ?thesis by blast
  qed
qed

text \<open>
  C2. One call of \<open>update_position\<close> for a body of non-zero mass, none of whose partners
  shares its position, returns normally and is one step of semi-implicit Euler: the
  forces of all other entries of the list are added up (the body itself is skipped),
  the acceleration is the total divided by the mass, the velocity is advanced by
  acceleration times \<open>TIMESTEP\<close>, the position by the new velocity times \<open>TIMESTEP\<close>,
  and the new position is appended to \<open>orbit\<close>. Mass and flag of the body and all other
  objects are unchanged.
\<close>

theorem update_position_euler:
  assumes "mass (h self) \<noteq> 0"
    and "\<forall>p\<in>set planets. p \<noteq> self \<longrightarrow> position (h p) \<noteq> position (h self)"
  shows "\<exists>h'. update_position h self planets = Inr h' \<and>
           (let F = net_force h self planets;
                acceleration_x = fst F / mass (h self);
                acceleration_y = snd F / mass (h self);
                vx = fst (velocity (h self)) + acceleration_x * TIMESTEP;
                vy = snd (velocity (h self)) + acceleration_y * TIMESTEP;
                x' = x_coord (h self) + vx * TIMESTEP;
                y' = y_coord (h self) + vy * TIMESTEP
            in velocity (h' self) = (vx, vy)
               \<and> position (h' self) = (x', y')
               \<and> orbit (h' self) = orbit (h self) @ [(x', y')]
               \<and> mass (h' self) = mass (h self)
               \<and> sun (h' self) = sun (h self)
               \<and> (\<forall>r. r \<noteq> self \<longrightarrow> h' r = h r))"
proof -
  from sum_forces_returns [OF assms(2), of 0 0] obtain d where
    s: "sum_forces h self planets (0, 0) =
          Inr (h(self := (h self)\<lparr>distance_to_sun := d\<rparr>), net_force h self planets)"
    unfolding net_force_def by blast
  obtain Fx Fy where F: "net_force h self planets = (Fx, Fy)"
    by (cases "net_force h self planets")
  show ?thesis
    using assms(1) by (simp add: update_position_def s F Let_def)
qed

theorem update_position_euler_witness:
  "mass (two_bodies 0) \<noteq> 0 \<and> position (two_bodies 1) \<noteq> position (two_bodies 0)
   \<and> (\<exists>h'. update_position two_bodies 0 [0, 1] = Inr h'
          \<and> velocity (h' 0) = (G * TIMESTEP, 0)
          \<and> position (h' 0) = (G * TIMESTEP * TIMESTEP, 0)
          \<and> orbit (h' 0) = [(G * TIMESTEP * TIMESTEP, 0)]
          \<and> h' 1 = two_bodies 1)"
proof -
  have m: "mass (two_bodies 0) \<noteq> 0"
    by (simp add: two_bodies_at primary_def)
  have p: "\<forall>p\<in>set [0, 1]. p \<noteq> 0 \<longrightarrow> position (two_bodies p) \<noteq> position (two_bodies 0)"
    by (simp add: two_bodies_at primary_def companion_def)
  have f: "net_force two_bodies 0 [0, Suc 0] = (G, 0)"
    by (simp add: net_force_def pair_force_def Let_def two_bodies_at primary_def companion_def atan2_def)
  show ?thesis
    using update_position_euler [OF m p] m p
    by (auto simp: f Let_def two_bodies_at primary_def companion_def)
qed

subsection \<open>The constructor and the mass\<close>

lemma update_position_zero_mass:
  assumes "mass (h self) = 0"
  shows "update_position h self planets = Inl ZeroDivisionError"
proof (cases "sum_forces h self planets (0, 0)")
  case (Inl e)
  then show ?thesis
    by (cases e) (simp add: update_position_def)
next
  case (Inr r)
  obtain h1 tx ty where r: "r = (h1, tx, ty)"
    by (cases r)
  from sum_forces_store_shape [of h self planets 0 0 h1 "(tx, ty)"] Inr r
  obtain d where "h1 = h(self := (h self)\<lparr>distance_to_sun := d\<rparr>)"
    by auto
  then have "mass (h1 self) = 0"
    using assms by simp
  then show ?thesis
    using Inr r by (simp add: update_position_def)
qed

lemma update_position_returns:
  assumes "mass (h self) \<noteq> 0"
    and "\<forall>p\<in>set planets. p \<noteq> self \<longrightarrow> position (h p) \<noteq> position (h self)"
  shows "\<exists>h'. update_position h self planets = Inr h' \<and> mass (h' self) = mass (h self)"
proof -
  from sum_forces_returns [OF assms(2), of 0 0] obtain d t where
    s: "sum_forces h self planets (0, 0) = Inr (h(self := (h self)\<lparr>distance_to_sun := d\<rparr>), t)"
    by blast
  obtain tx ty where t: "t = (tx, ty)"
    by (cases t)
  show ?thesis
    using assms(1) by (simp add: update_position_def s t Let_def)
qed

text \<open>
  C7, as the code has it. The constructor never fails: it returns a planet whose mass is
  the argument, whatever its sign. A zero mass shows only later, when
  \<open>update_position\<close> is called on that planet, which then raises \<open>ZeroDivisionError\<close>.
  A negative mass is never rejected: \<open>update_position\<close> on a planet of negative mass,
  none of whose partners shares its position, returns normally and keeps the mass,
  whatever the masses of the partners.
\<close>

theorem Planet_init_no_validation:
  "(\<exists>p. Planet_init x y r c m = Inr p \<and> mass p = m)
   \<and> (mass (h self) = 0 \<longrightarrow> update_position h self planets = Inl ZeroDivisionError)
   \<and> (mass (h self) < 0
        \<and> (\<forall>p\<in>set planets. p \<noteq> self \<longrightarrow> position (h p) \<noteq> position (h self))
      \<longrightarrow> (\<exists>h'. update_position h self planets = Inr h' \<and> mass (h' self) = mass (h self)))"
proof -
  have "\<exists>p. Planet_init x y r c m = Inr p \<and> mass p = m"
    by (simp add: Planet_init_def)
  moreover have "update_position h self planets = Inl ZeroDivisionError" if "mass (h self) = 0"
    using that by (rule update_position_zero_mass)
  moreover have "\<exists>h'. update_position h self planets = Inr h' \<and> mass (h' self) = mass (h self)"
    if "mass (h self) < 0"
      and "\<forall>p\<in>set planets. p \<noteq> self \<longrightarrow> position (h p) \<noteq> position (h self)"
    using update_position_returns [of h self planets] that by simp
  ultimately show ?thesis
    by blast
qed

theorem Planet_init_no_validation_witness:
  "(\<exists>p. Planet_init 0 0 30 (255, 255, 0) (- 5) = Inr p \<and> mass p = - 5)
   \<and> mass ((two_bodies(0 := primary\<lparr>mass := 0\<rparr>)) 0) = 0
   \<and> update_position (two_bodies(0 := primary\<lparr>mass := 0\<rparr>)) 0 [0, 1] = Inl ZeroDivisionError
   \<and> mass ((two_bodies(0 := primary\<lparr>mass := - 5\<rparr>)) 0) < 0
   \<and> position ((two_bodies(0 := primary\<lparr>mass := - 5\<rparr>)) 1)
       \<noteq> position ((two_bodies(0 := primary\<lparr>mass := - 5\<rparr>)) 0)
   \<and> (\<exists>h'. update_position (two_bodies(0 := primary\<lparr>mass := - 5\<rparr>)) 0 [0, 1] = Inr h'
          \<and> mass (h' 0) = - 5)"
proof -
  let ?hz = "two_bodies(0 := primary\<lparr>mass := 0\<rparr>)"
  let ?hn = "two_bodies(0 := primary\<lparr>mass := - 5\<rparr>)"
  have apart: "position (?hn (Suc 0)) \<noteq> position (?hn 0)"
    by (simp add: two_bodies_at primary_def companion_def)
  have neg: "mass (?hn 0) < 0"
    by simp
  have pre: "\<forall>p\<in>set [0, Suc 0]. p \<noteq> 0 \<longrightarrow> position (?hn p) \<noteq> position (?hn 0)"
    using apart by simp
  have zero: "update_position ?hz 0 [0, Suc 0] = Inl ZeroDivisionError"
    using Planet_init_no_validation [of 0 0 30 "(255, 255, 0)" "- 5" ?hz 0 "[0, Suc 0]"]
    by simp
  have "\<exists>h'. update_position ?hn 0 [0, Suc 0] = Inr h' \<and> mass (h' 0) = mass (?hn 0)"
    using Planet_init_no_validation [of 0 0 30 "(255, 255, 0)" "- 5" ?hn 0 "[0, Suc 0]"] neg pre
    by blast
  then have returns: "\<exists>h'. update_position ?hn 0 [0, Suc 0] = Inr h' \<and> mass (h' 0) = - 5"
    by simp
  have ctor: "\<exists>p. Planet_init 0 0 30 (255, 255, 0) (- 5) = Inr p \<and> mass p = - 5"
    using Planet_init_no_validation [of 0 0 30 "(255, 255, 0)" "- 5" ?hz 0 "[0, Suc 0]"]
    by blast
  show ?thesis
    using ctor zero neg apart returns by simp
qed

text \<open>
  C7 as stated fails: constructing a planet of mass \<open>-5\<close> or \<open>0\<close> raises nothing, and
  the planet of mass \<open>-5\<close> exists.
\<close>

theorem Planet_init_negative_mass_accepted:
  "Planet_init 0 0 30 (255, 255, 0) (- 5) =
     Inr \<lparr> x_coord = 0, y_coord = 0, radius = 30, color = (255, 255, 0), mass = - 5,
           velocity = (0, 0), orbit = [], sun = False, distance_to_sun = 0 \<rparr>
   \<and> \<not> isl (Planet_init 0 0 30 (255, 255, 0) (- 5))
   \<and> \<not> isl (Planet_init 0 0 30 (255, 255, 0) 0)"
  by (simp add: Planet_init_def)

subsection \<open>A system of one body\<close>

lemma sum_forces_alone:
  "sum_forces h b [b] (0, 0) = Inr (h, 0, 0)"
  by simp

lemma step_alone:
  assumes "mass (h b) \<noteq> 0"
  shows "step h [b] =
     Inr (h(b := (h b)\<lparr> x_coord := x_coord (h b) + fst (velocity (h b)) * TIMESTEP,
                          y_coord := y_coord (h b) + snd (velocity (h b)) * TIMESTEP,
                          velocity := velocity (h b),
                          orbit := orbit (h b) @
                            [(x_coord (h b) + fst (velocity (h b)) * TIMESTEP,
                              y_coord (h b) + snd (velocity (h b)) * TIMESTEP)] \<rparr>))"
  using assms by (simp add: step_def update_position_def Let_def)

lemma run_alone:
  assumes "mass (h b) \<noteq> 0"
  shows "\<exists>h'. run k h [b] = Inr h'
           \<and> mass (h' b) = mass (h b)
           \<and> velocity (h' b) = velocity (h b)
           \<and> x_coord (h' b) = x_coord (h b) + real k * (fst (velocity (h b)) * TIMESTEP)
           \<and> y_coord (h' b) = y_coord (h b) + real k * (snd (velocity (h b)) * TIMESTEP)"
  using assms
proof (induction k arbitrary: h)
  case 0
  then show ?case by simp
next
  case (Suc k)
  let ?h1 = "h(b := (h b)\<lparr> x_coord := x_coord (h b) + fst (velocity (h b)) * TIMESTEP,
                          y_coord := y_coord (h b) + snd (velocity (h b)) * TIMESTEP,
                          velocity := velocity (h b),
                          orbit := orbit (h b) @
                            [(x_coord (h b) + fst (velocity (h b)) * TIMESTEP,
                              y_coord (h b) + snd (velocity (h b)) * TIMESTEP)] \<rparr>)"
  have s: "step h [b] = Inr ?h1"
    using Suc.prems by (rule step_alone)
  have m: "mass (?h1 b) \<noteq> 0"
    using Suc.prems by simp
  from Suc.IH [of ?h1] m obtain h' where r: "run k ?h1 [b] = Inr h'"
    and f: "mass (h' b) = mass (?h1 b)" "velocity (h' b) = velocity (?h1 b)"
      "x_coord (h' b) = x_coord (?h1 b) + real k * (fst (velocity (?h1 b)) * TIMESTEP)"
      "y_coord (h' b) = y_coord (?h1 b) + real k * (snd (velocity (?h1 b)) * TIMESTEP)"
    by blast
  have "run (Suc k) h [b] = Inr h'"
    using s r by simp
  moreover have "mass (h' b) = mass (h b)" "velocity (h' b) = velocity (h b)"
    using f by simp_all
  moreover have "x_coord (h' b) = x_coord (h b) + real (Suc k) * (fst (velocity (h b)) * TIMESTEP)"
    "y_coord (h' b) = y_coord (h b) + real (Suc k) * (snd (velocity (h b)) * TIMESTEP)"
    using f by (simp_all add: algebra_simps)
  ultimately show ?case by blast
qed

text \<open>
  C8, as the code has it. In a system of one body of non-zero mass, \<open>k\<close> steps return
  normally and leave the velocity unchanged; the position moves by \<open>k\<close> times velocity
  times \<open>TIMESTEP\<close>, so it is unchanged when the velocity is zero, as it is after
  construction.
\<close>

theorem single_body_inertia:
  assumes "mass (h b) \<noteq> 0"
  shows "\<exists>h'. run k h [b] = Inr h'
           \<and> velocity (h' b) = velocity (h b)
           \<and> position (h' b) =
               (x_coord (h b) + real k * (fst (velocity (h b)) * TIMESTEP),
                y_coord (h b) + real k * (snd (velocity (h b)) * TIMESTEP))
           \<and> (velocity (h b) = (0, 0) \<longrightarrow> position (h' b) = position (h b))"
proof -
  from run_alone [of h b k] assms obtain h' where "run k h [b] = Inr h'"
    and "velocity (h' b) = velocity (h b)"
    and "x_coord (h' b) = x_coord (h b) + real k * (fst (velocity (h b)) * TIMESTEP)"
    and "y_coord (h' b) = y_coord (h b) + real k * (snd (velocity (h b)) * TIMESTEP)"
    by blast
  then show ?thesis
    by auto
qed

theorem single_body_inertia_witness:
  "mass (lone_body 0) \<noteq> 0
   \<and> (\<exists>h'. run 3 lone_body [0] = Inr h' \<and> velocity (h' 0) = (1, 0) \<and> position (h' 0) = (259200, 0))
   \<and> mass (two_bodies 0) \<noteq> 0 \<and> velocity (two_bodies 0) = (0, 0)
   \<and> (\<exists>h'. run 3 two_bodies [0] = Inr h' \<and> velocity (h' 0) = (0, 0) \<and> position (h' 0) = (0, 0))"
proof -
  have m1: "mass (lone_body 0) \<noteq> 0"
    by (simp add: lone_body_def drifting_def)
  have m2: "mass (two_bodies 0) \<noteq> 0"
    by (simp add: two_bodies_at primary_def)
  show ?thesis
    using single_body_inertia [of lone_body 0 3] single_body_inertia [of two_bodies 0 3] m1 m2
    by (simp add: lone_body_def drifting_def two_bodies_at primary_def TIMESTEP_def)
qed

text \<open>
  C8 as stated fails: a lone primary with velocity \<open>(1, 0)\<close> is at \<open>(86400, 0)\<close> after
  one step, not at its initial position.
\<close>

theorem single_body_drifts:
  "run (Suc 0) lone_body [0] = Inr (lone_body(0 := drifted))
   \<and> position ((lone_body(0 := drifted)) 0) \<noteq> position (lone_body 0)"
  by (simp add: step_def update_position_def Let_def lone_body_def drifting_def drifted_def
      TIMESTEP_def)

subsection \<open>The loop over all planets\<close>

lemma update_all_other:
  "update_all h ps planets = Inr h' \<Longrightarrow> r \<notin> set ps \<Longrightarrow> h' r = h r"
proof (induction ps arbitrary: h)
  case Nil
  then show ?case by simp
next
  case (Cons p ps)
  from Cons.prems(1) obtain h1 where u: "update_position h p planets = Inr h1"
    and rest: "update_all h1 ps planets = Inr h'"
    by (auto split: sum.splits)
  have "h' r = h1 r"
    using Cons.IH [OF rest] Cons.prems(2) by simp
  also have "h1 r = h r"
    using update_position_other [OF u] Cons.prems(2) by simp
  finally show ?case .
qed

lemma update_all_append:
  "update_all h (ps @ qs) planets =
     (case update_all h ps planets of Inl e \<Rightarrow> Inl e | Inr hm \<Rightarrow> update_all hm qs planets)"
  by (induction ps arbitrary: h) (auto split: sum.splits)

lemma update_all_orbit:
  "distinct ps \<Longrightarrow> b \<in> set ps \<Longrightarrow> update_all h ps planets = Inr h' \<Longrightarrow>
     orbit (h' b) = orbit (h b) @ [position (h' b)]"
proof (induction ps arbitrary: h)
  case Nil
  then show ?case by simp
next
  case (Cons p ps)
  from Cons.prems(3) obtain h1 where u: "update_position h p planets = Inr h1"
    and rest: "update_all h1 ps planets = Inr h'"
    by (auto split: sum.splits)
  show ?case
  proof (cases "b = p")
    case True
    then have "b \<notin> set ps"
      using Cons.prems(1) by simp
    then have "h' b = h1 b"
      using update_all_other [OF rest] by simp
    then show ?thesis
      using update_position_orbit [OF u] True by simp
  next
    case False
    then have "b \<in> set ps"
      using Cons.prems(2) by simp
    moreover have "distinct ps"
      using Cons.prems(1) by simp
    ultimately have "orbit (h' b) = orbit (h1 b) @ [position (h' b)]"
      using Cons.IH rest by blast
    moreover have "h1 b = h b"
      using update_position_other [OF u] False by simp
    ultimately show ?thesis by simp
  qed
qed

lemma run_add:
  "run (i + j) h planets =
     (case run i h planets of Inl e \<Rightarrow> Inl e | Inr hi \<Rightarrow> run j hi planets)"
  by (induction i arbitrary: h) (auto split: sum.splits)

lemma run_orbit:
  assumes "distinct planets" and "b \<in> set planets"
  shows "run k h planets = Inr h' \<Longrightarrow>
     \<exists>ps. orbit (h' b) = orbit (h b) @ ps \<and> length ps = k
        \<and> (\<forall>i<k. \<exists>hi. run (Suc i) h planets = Inr hi \<and> ps ! i = position (hi b))"
proof (induction k arbitrary: h)
  case 0
  then show ?case by simp
next
  case (Suc k)
  from Suc.prems obtain h1 where s: "step h planets = Inr h1"
    and rest: "run k h1 planets = Inr h'"
    by (auto split: sum.splits)
  have o1: "orbit (h1 b) = orbit (h b) @ [position (h1 b)]"
    using update_all_orbit [OF assms] s unfolding step_def by blast
  from Suc.IH [OF rest] obtain qs where q: "orbit (h' b) = orbit (h1 b) @ qs" "length qs = k"
    and qi: "\<forall>i<k. \<exists>hi. run (Suc i) h1 planets = Inr hi \<and> qs ! i = position (hi b)"
    by blast
  let ?ps = "position (h1 b) # qs"
  have "orbit (h' b) = orbit (h b) @ ?ps"
    using q o1 by simp
  moreover have "length ?ps = Suc k"
    using q by simp
  moreover have "\<exists>hi. run (Suc i) h planets = Inr hi \<and> ?ps ! i = position (hi b)"
    if "i < Suc k" for i
  proof (cases i)
    case 0
    then show ?thesis using s by simp
  next
    case (Suc j)
    then have "j < k" using that by simp
    with qi obtain hi where "run (Suc j) h1 planets = Inr hi" "qs ! j = position (hi b)"
      by blast
    then show ?thesis
      using s Suc by simp
  qed
  ultimately show ?case by blast
qed

lemma two_bodies_step_returns:
  "\<exists>h'. step two_bodies [0, Suc 0] = Inr h'"
  by (simp add: step_def update_position_def attraction_def Let_def atan2_def
      two_bodies_def primary_def companion_def G_def TIMESTEP_def power2_eq_square)

text \<open>
  C9. The constructor leaves \<open>orbit\<close> empty. For a list of distinct planets and a planet
  \<open>b\<close> of the list that starts with an empty orbit, after \<open>k\<close> steps the orbit of
  \<open>b\<close> has exactly \<open>k\<close> entries, entry \<open>i\<close> is the position of \<open>b\<close> at the end of
  step \<open>i + 1\<close>, and the orbit after \<open>j \<le> k\<close> steps is the first \<open>j\<close> entries of the
  orbit after \<open>k\<close> steps: entries are only appended.
\<close>

theorem orbit_growth:
  assumes "distinct planets" and "b \<in> set planets" and "orbit (h b) = []"
    and "run k h planets = Inr h'"
  shows "(\<exists>p. Planet_init x y r c m = Inr p \<and> orbit p = [])
     \<and> length (orbit (h' b)) = k
     \<and> (\<forall>i<k. \<exists>hi. run (Suc i) h planets = Inr hi \<and> orbit (h' b) ! i = position (hi b))
     \<and> (\<forall>j\<le>k. \<exists>hj. run j h planets = Inr hj \<and> orbit (hj b) = take j (orbit (h' b)))"
proof -
  from run_orbit [OF assms(1,2,4)] assms(3) obtain ps where ps: "orbit (h' b) = ps" "length ps = k"
    and entries: "\<forall>i<k. \<exists>hi. run (Suc i) h planets = Inr hi \<and> ps ! i = position (hi b)"
    by auto
  have "\<exists>hj. run j h planets = Inr hj \<and> orbit (hj b) = take j (orbit (h' b))" if "j \<le> k" for j
  proof -
    have "run (j + (k - j)) h planets = Inr h'"
      using assms(4) that by simp
    then obtain hj where hj: "run j h planets = Inr hj" and rest: "run (k - j) hj planets = Inr h'"
      unfolding run_add by (auto split: sum.splits)
    from run_orbit [OF assms(1,2) hj] assms(3) have len: "length (orbit (hj b)) = j"
      by auto
    from run_orbit [OF assms(1,2) rest] obtain qs where "orbit (h' b) = orbit (hj b) @ qs"
      by blast
    then have "take j (orbit (h' b)) = orbit (hj b)"
      using len by simp
    then show ?thesis
      using hj by simp
  qed
  then show ?thesis
    using ps entries by (simp add: Planet_init_def)
qed

theorem orbit_growth_witness:
  "distinct [0, 1 :: nat] \<and> 1 \<in> set [0, 1 :: nat] \<and> orbit (two_bodies 1) = []
   \<and> (\<exists>h'. run (Suc 0) two_bodies [0, 1] = Inr h'
          \<and> length (orbit (h' 1)) = Suc 0
          \<and> orbit (h' 1) ! 0 = position (h' 1))"
proof -
  from two_bodies_step_returns obtain h' where s: "step two_bodies [0, Suc 0] = Inr h'"
    by blast
  then have r: "run (Suc 0) two_bodies [0, Suc 0] = Inr h'"
    by simp
  have d: "distinct [0, Suc 0]" and m: "Suc 0 \<in> set [0, Suc 0]"
    by simp_all
  have e: "orbit (two_bodies (Suc 0)) = []"
    by (simp add: two_bodies_at companion_def)
  from orbit_growth [OF d m e r] r e show ?thesis
    by auto
qed

subsection \<open>The distance of the primary to itself\<close>

lemma sum_forces_no_sun:
  "\<forall>p\<in>set ps. p \<noteq> self \<longrightarrow> \<not> sun (h p) \<Longrightarrow>
     sum_forces h self ps (tx, ty) = Inr (h', t) \<Longrightarrow> h' = h"
proof (induction ps arbitrary: tx ty)
  case Nil
  then show ?case by simp
next
  case (Cons p ps)
  show ?case
  proof (cases "self = p")
    case True
    with Cons show ?thesis by simp
  next
    case False
    then have "\<not> sun (h p)"
      using Cons.prems(1) by simp
    then have "fst (attraction h self p) = h"
      by (simp add: attraction_store)
    with Cons.prems(2) False obtain fx fy
      where "sum_forces h self ps (tx + fx, ty + fy) = Inr (h', t)"
      by (cases "attraction h self p") (auto split: sum.splits prod.splits)
    with Cons.IH Cons.prems(1) show ?thesis
      by simp
  qed
qed

lemma update_position_primary_distance:
  assumes "\<forall>p\<in>set planets. p \<noteq> s \<longrightarrow> \<not> sun (h p)"
    and "update_position h self planets = Inr h'"
  shows "distance_to_sun (h' s) = distance_to_sun (h s)"
proof (cases "self = s")
  case True
  from assms(2) obtain h1 tx ty where f: "sum_forces h self planets (0, 0) = Inr (h1, tx, ty)"
    by (auto simp: update_position_def split: sum.splits)
  then have "h1 = h"
    using sum_forces_no_sun [of planets self h 0 0 h1 "(tx, ty)"] assms(1) True by simp
  then show ?thesis
    using assms(2) f True by (auto simp: update_position_def Let_def split: if_splits)
next
  case False
  then show ?thesis
    using update_position_other [OF assms(2), of s] by simp
qed

lemma update_all_primary_distance:
  "\<forall>p\<in>set planets. p \<noteq> s \<longrightarrow> \<not> sun (h p) \<Longrightarrow> update_all h ps planets = Inr h' \<Longrightarrow>
     distance_to_sun (h' s) = distance_to_sun (h s) \<and> (\<forall>r. sun (h' r) = sun (h r))"
proof (induction ps arbitrary: h)
  case Nil
  then show ?case by simp
next
  case (Cons p ps)
  from Cons.prems(2) obtain h1 where u: "update_position h p planets = Inr h1"
    and rest: "update_all h1 ps planets = Inr h'"
    by (auto split: sum.splits)
  have flags: "sun (h1 r) = sun (h r)" for r
    using u by (rule update_position_sun)
  then have pre: "\<forall>p\<in>set planets. p \<noteq> s \<longrightarrow> \<not> sun (h1 p)"
    using Cons.prems(1) by simp
  have "distance_to_sun (h1 s) = distance_to_sun (h s)"
    using Cons.prems(1) u by (rule update_position_primary_distance)
  with Cons.IH [OF pre rest] flags show ?case
    by simp
qed

lemma run_primary_distance:
  "\<forall>p\<in>set planets. p \<noteq> s \<longrightarrow> \<not> sun (h p) \<Longrightarrow> run k h planets = Inr h' \<Longrightarrow>
     distance_to_sun (h' s) = distance_to_sun (h s)"
proof (induction k arbitrary: h)
  case 0
  then show ?case by simp
next
  case (Suc k)
  from Suc.prems(2) obtain h1 where s1: "update_all h planets planets = Inr h1"
    and rest: "run k h1 planets = Inr h'"
    by (auto simp: step_def split: sum.splits)
  from update_all_primary_distance [OF Suc.prems(1) s1]
  have d: "distance_to_sun (h1 s) = distance_to_sun (h s)" and flags: "\<forall>r. sun (h1 r) = sun (h r)"
    by simp_all
  have pre: "\<forall>p\<in>set planets. p \<noteq> s \<longrightarrow> \<not> sun (h1 p)"
    using Suc.prems(1) flags by simp
  from Suc.IH [OF pre rest] d show ?case
    by simp
qed

text \<open>
  C10. The constructor sets \<open>distance_to_sun\<close> to \<open>0\<close>. If no planet of the list other
  than \<open>s\<close> carries the flag \<open>sun\<close> and \<open>s\<close> starts with \<open>distance_to_sun = 0\<close>, the
  field of \<open>s\<close> is still \<open>0\<close> after any number of steps.
\<close>

theorem primary_distance_stays_zero:
  "(\<exists>p. Planet_init x y r c m = Inr p \<and> distance_to_sun p = 0)
   \<and> ((\<forall>p\<in>set planets. p \<noteq> s \<longrightarrow> \<not> sun (h p)) \<and> distance_to_sun (h s) = 0
        \<and> run k h planets = Inr h' \<longrightarrow> distance_to_sun (h' s) = 0)"
  using run_primary_distance [of planets s h k h'] by (simp add: Planet_init_def)

theorem primary_distance_stays_zero_witness:
  "sun (two_bodies 0) \<and> \<not> sun (two_bodies 1) \<and> distance_to_sun (two_bodies 0) = 0
   \<and> (\<exists>h'. run (Suc 0) two_bodies [0, 1] = Inr h' \<and> distance_to_sun (h' 0) = 0)"
proof -
  from two_bodies_step_returns obtain h' where "step two_bodies [0, Suc 0] = Inr h'"
    by blast
  then have r: "run (Suc 0) two_bodies [0, Suc 0] = Inr h'"
    by simp
  have "distance_to_sun (h' 0) = 0"
    using primary_distance_stays_zero [of 0 0 30 "(255, 255, 0)" 1 "[0, Suc 0]" 0 two_bodies "Suc 0" h'] r
    by (simp add: two_bodies_at primary_def companion_def)
  with r show ?thesis
    by (auto simp: two_bodies_at primary_def companion_def)
qed

subsection \<open>Sequential update against the two-pass scheme\<close>

text \<open>
  C3, as the code has it. In one step over a list of distinct planets, the planet \<open>b\<close>
  is advanced by \<open>update_position\<close> in a store where the planets before \<open>b\<close> in the
  list already have their state of the end of the step, and \<open>b\<close> and the planets after
  it still have their state from before the step.
\<close>

theorem step_sees_updated_predecessors:
  assumes "distinct planets" and "planets = ps @ b # qs" and "step h planets = Inr h'"
  shows "\<exists>hb. update_position (\<lambda>r. if r \<in> set ps then h' r else h r) b planets = Inr hb
           \<and> hb b = h' b"
proof -
  from assms(2,3) obtain hm where m: "update_all h ps planets = Inr hm"
    and rest: "update_all hm (b # qs) planets = Inr h'"
    unfolding step_def by (auto simp: update_all_append split: sum.splits)
  from rest obtain hb where u: "update_position hm b planets = Inr hb"
    and tail: "update_all hb qs planets = Inr h'"
    by (auto split: sum.splits)
  have d: "b \<notin> set ps" "b \<notin> set qs" "set ps \<inter> set qs = {}"
    using assms(1,2) by auto
  have "hm r = (if r \<in> set ps then h' r else h r)" for r
  proof (cases "r \<in> set ps")
    case True
    then have "r \<noteq> b" "r \<notin> set qs"
      using d by auto
    then have "h' r = hm r"
      using update_all_other [OF tail] update_position_other [OF u] by simp
    with True show ?thesis by simp
  next
    case False
    then show ?thesis
      using update_all_other [OF m] by simp
  qed
  then have "hm = (\<lambda>r. if r \<in> set ps then h' r else h r)"
    by (simp add: fun_eq_iff)
  moreover have "hb b = h' b"
    using update_all_other [OF tail] d by simp
  ultimately show ?thesis
    using u by auto
qed

theorem step_sees_updated_predecessors_witness:
  "distinct [0, 1 :: nat]
   \<and> (\<exists>h'. step two_bodies [0, 1] = Inr h'
        \<and> (\<exists>hb. update_position (\<lambda>r. if r \<in> set [0] then h' r else two_bodies r) 1 [0, 1] = Inr hb
               \<and> hb 1 = h' 1))"
proof -
  from two_bodies_step_returns obtain h' where s: "step two_bodies [0, Suc 0] = Inr h'"
    by blast
  have d: "distinct [0, Suc 0]"
    by simp
  have l: "[0, Suc 0] = [0] @ Suc 0 # []"
    by simp
  from step_sees_updated_predecessors [OF d l s] s show ?thesis
    by auto
qed

lemma sequential_velocity:
  "map_sum id (\<lambda>h. fst (velocity (h 1))) (step two_bodies [0, 1])
     = Inr (- 3519650390625 / 153667782039270976)"
  by (simp add: step_def update_position_def attraction_def Let_def atan2_def
      two_bodies_def primary_def companion_def G_def TIMESTEP_def power2_eq_square)

lemma two_pass_velocity:
  "map_sum id (\<lambda>h. fst (velocity (h 1))) (two_pass_step two_bodies [0, 1])
     = Inr (- 1802061 / 312500000000)"
  by (simp add: two_pass_step_def attraction_def Let_def atan2_def
      two_bodies_def primary_def companion_def G_def TIMESTEP_def)

text \<open>
  C3 as stated fails: for the primary and its companion, one step of the program and one
  step of the two-pass scheme end in different stores (the companion's velocity is
  about four times larger in the program, which computes its force after the primary
  has moved towards it).
\<close>

theorem step_differs_from_two_pass:
  "step two_bodies [0, 1] \<noteq> two_pass_step two_bodies [0, 1]"
proof
  assume "step two_bodies [0, 1] = two_pass_step two_bodies [0, 1]"
  then have "map_sum id (\<lambda>h. fst (velocity (h 1))) (step two_bodies [0, 1])
     = map_sum id (\<lambda>h. fst (velocity (h 1))) (two_pass_step two_bodies [0, 1])"
    by simp
  then show False
    unfolding sequential_velocity two_pass_velocity by simp
qed

end
